theory Spec2Isabelle
  imports Complex_Main "HOL-Library.Product_Lexorder"
begin

section \<open>Numbers and errors\<close>

text \<open>
  A float is modelled by the real number it stands for, and arithmetic on floats by
  exact arithmetic: the binary rounding of a result is not modelled, nor are the
  infinities and NaN. What is kept of the float format is its range where the source can
  raise on it: a power (\<^verbatim>\<open>**\<close>) or a conversion to \<^verbatim>\<open>int\<close> beyond the largest float raises
  OverflowError, and a power nearer to zero than half the smallest float is the float
  zero, by which a later division raises. The one place where the rounding itself is
  modelled is the conversion to \<^verbatim>\<open>int\<close>, which truncates the rounded product (\<open>fl\<close>
  below). Properties that hang on the rounding of any other result inside the range are
  not stated in this theory.
  A raise of the source is a value of \<open>py_error\<close>; \<open>LibraryError\<close> stands for any
  exception of the third-party pricing library.
\<close>

datatype py_error = ZeroDivisionError | OverflowError | NameError | LibraryError

definition float_overflow :: "real \<Rightarrow> bool" where
  \<comment> \<open>the nearest float would be beyond \<open>(2 - 2^(-52)) * 2^1023\<close>\<close>
  "float_overflow x \<longleftrightarrow> 2 ^ 1024 - 2 ^ 970 \<le> \<bar>x\<bar>"

definition float_zero :: "real \<Rightarrow> bool" where
  \<comment> \<open>the nearest float is zero: the smallest float above it is \<open>2^(-1074)\<close>\<close>
  "float_zero x \<longleftrightarrow> \<bar>x\<bar> \<le> 1 / 2 ^ 1075"

text \<open>
  \<^verbatim>\<open>x ** k\<close> for a float \<open>x\<close> and an integer \<open>k\<close>: zero to a negative power and a result
  out of range raise, a result too small is zero.
\<close>

definition py_pow :: "real \<Rightarrow> int \<Rightarrow> py_error + real" where
  "py_pow x k =
     (if x = 0 \<and> k < 0 then Inl ZeroDivisionError
      else if float_overflow (x powi k) then Inl OverflowError
      else if float_zero (x powi k) then Inr 0
      else Inr (x powi k))"

definition py_div :: "real \<Rightarrow> real \<Rightarrow> py_error + real" where
  "py_div a b = (if b = 0 then Inl ZeroDivisionError else Inr (a / b))"

text \<open>Statements in sequence: the first raise ends the computation.\<close>

definition and_then :: "'e + 'a \<Rightarrow> ('a \<Rightarrow> 'e + 'b) \<Rightarrow> 'e + 'b" where
  "and_then m f = (case m of Inl e \<Rightarrow> Inl e | Inr v \<Rightarrow> f v)"

text \<open>A sum over a list comprehension: the first element that raises ends it.\<close>

fun py_sum :: "(int \<Rightarrow> py_error + real) \<Rightarrow> int list \<Rightarrow> py_error + real" where
  "py_sum f [] = Inr 0"
| "py_sum f (t # ts) =
     (case f t of
        Inl e \<Rightarrow> Inl e
      | Inr v \<Rightarrow> (case py_sum f ts of Inl e \<Rightarrow> Inl e | Inr s \<Rightarrow> Inr (v + s)))"

text \<open>
  \<^verbatim>\<open>round(x, n)\<close> on the number \<open>x\<close> that the float stands for: the multiple of
  \<open>10^(-n)\<close> nearest to \<open>x\<close>, a tie going to the even multiple. A decimal literal such as
  \<^verbatim>\<open>2.675\<close> is not the number its float stands for, and a computed float may lie on
  the other side of a tie than the exact result.
\<close>

definition round_half_even :: "real \<Rightarrow> int" where
  "round_half_even x =
     (let f = \<lfloor>x\<rfloor>; d = x - of_int f
      in if d < 1 / 2 then f
         else if 1 / 2 < d then f + 1
         else if even f then f else f + 1)"

definition py_round :: "real \<Rightarrow> nat \<Rightarrow> real" where
  "py_round x n = of_int (round_half_even (x * 10 ^ n)) / 10 ^ n"

text \<open>
  The float nearest to a number within the range, a tie going to the float with the even
  significand: 53 binary digits, the exponent not below \<open>-1022\<close>.
\<close>

definition fl :: "real \<Rightarrow> real" where
  "fl x =
     (if x = 0 then 0
      else let e = max \<lfloor>log 2 \<bar>x\<bar>\<rfloor> (- 1022);
               ulp = 2 powi (e - 52)
           in of_int (round_half_even (x / ulp)) * ulp)"

section \<open>quantlib\_analyzer.py: QuantLibAnalyzer\<close>

text \<open>
  \<^verbatim>\<open>QuantLibAnalyzer.__init__\<close> reads the evaluation date from the system clock once and
  keeps it; the calendar and the day counter are constants of the pricing library.
\<close>

record analyzer =
  today :: int

definition QuantLibAnalyzer :: "int \<Rightarrow> analyzer" where
  "QuantLibAnalyzer clock_date = \<lparr> today = clock_date \<rparr>"

subsection \<open>vasicek\_analysis\<close>

definition times :: "real list" where
  "times = [1 / 4, 1 / 2, 1, 2, 3, 5, 10]"

definition time_label :: "real \<Rightarrow> string" where
  \<comment> \<open>\<^verbatim>\<open>f"{t}Y"\<close> on the seven floats of \<open>times\<close>\<close>
  "time_label t =
     (if t = 1 / 4 then ''0.25Y'' else if t = 1 / 2 then ''0.5Y''
      else if t = 1 then ''1.0Y'' else if t = 2 then ''2.0Y''
      else if t = 3 then ''3.0Y'' else if t = 5 then ''5.0Y''
      else ''10.0Y'')"

definition zcb_times :: "(string \<times> real) list" where
  \<comment> \<open>\<^verbatim>\<open>for t in [1, 2, 5, 10]\<close> with the key \<^verbatim>\<open>f"{t}Y"\<close>\<close>
  "zcb_times = [(''1Y'', 1), (''2Y'', 2), (''5Y'', 5), (''10Y'', 10)]"

definition exp_rate :: "real \<Rightarrow> real \<Rightarrow> real \<Rightarrow> real \<Rightarrow> real" where
  "exp_rate r0 a b t = r0 * exp (- a * t) + b * (1 - exp (- a * t))"

definition var_rate :: "real \<Rightarrow> real \<Rightarrow> real \<Rightarrow> real" where
  \<comment> \<open>the caller has checked \<open>a \<noteq> 0\<close>\<close>
  "var_rate sigma a t = (sigma\<^sup>2 / (2 * a)) * (1 - exp (- 2 * a * t))"

definition std_rate :: "real \<Rightarrow> real \<Rightarrow> real \<Rightarrow> real" where
  "std_rate sigma a t = sqrt (var_rate sigma a t)"

definition vasicek_zcb_price :: "real \<Rightarrow> real \<Rightarrow> real \<Rightarrow> real \<Rightarrow> real \<Rightarrow> real" where
  "vasicek_zcb_price r t a b sigma =
     (let B = (1 - exp (- a * t)) / a;
          A = exp ((b - sigma\<^sup>2 / (2 * a\<^sup>2)) * (B - t) - (sigma\<^sup>2 / (4 * a)) * B\<^sup>2)
      in A * exp (- B * r))"

record vasicek_parameters =
  par_r0 :: real
  par_kappa :: real
  par_theta :: real
  par_sigma :: real

record zcb_quote =
  zcb_price :: real
  zcb_yield :: real

record scenario =
  scenario_rate :: real
  scenario_prob :: real

record vasicek_report =
  vasicek_model :: string
  parameters :: vasicek_parameters
  expected_path :: "(string \<times> real) list"
  rate_volatility :: "(string \<times> real) list"
  zcb_prices :: "(string \<times> zcb_quote) list"
  scenarios :: "(string \<times> scenario) list"
  half_life_years :: real
  long_term_rate :: real

definition zcb_entry :: "real \<Rightarrow> real \<Rightarrow> real \<Rightarrow> real \<Rightarrow> string \<times> real \<Rightarrow> string \<times> zcb_quote" where
  "zcb_entry r0 a b sigma kt =
     (let t = snd kt;
          price = vasicek_zcb_price r0 t a b sigma;
          ytm = - ln price / t
      in (fst kt, \<lparr> zcb_price = py_round price 4, zcb_yield = py_round (ytm * 100) 3 \<rparr>))"

text \<open>
  \<^verbatim>\<open>vasicek_analysis\<close>. Its Python-level operations raise in this order: in the first
  round of the first loop \<^verbatim>\<open>sigma**2\<close> when the square is out of range, then the division
  by \<^verbatim>\<open>2 * a\<close> when \<open>a = 0\<close>; in the bond price \<^verbatim>\<open>a**2\<close> when it is out of range, and
  the division by \<^verbatim>\<open>2 * a**2\<close> when the square is the float zero. The numpy operations
  (\<^verbatim>\<open>exp, sqrt, log\<close> and the arithmetic on their results) do not raise. For \<open>a \<noteq> 0\<close> the
  variance is never negative, so the square root is always of a number \<open>\<ge> 0\<close>.
\<close>

definition vasicek_analysis :: "real \<Rightarrow> real \<Rightarrow> real \<Rightarrow> real \<Rightarrow> py_error + vasicek_report" where
  "vasicek_analysis r0 kappa theta sigma =
     (let a = kappa; b = theta
      in if float_overflow (sigma\<^sup>2) then Inl OverflowError
         else if a = 0 then Inl ZeroDivisionError
         else if float_overflow (a\<^sup>2) then Inl OverflowError
         else if float_zero (a\<^sup>2) then Inl ZeroDivisionError
         else
           let expected_rates = map (\<lambda>t. py_round (exp_rate r0 a b t * 100) 3) times;
               rate_std = map (\<lambda>t. py_round (std_rate sigma a t * 100) 3) times;
               half_life = ln 2 / a
           in Inr \<lparr> vasicek_model = ''Vasicek'',
                    parameters = \<lparr> par_r0 = py_round (r0 * 100) 3, par_kappa = kappa,
                                   par_theta = py_round (theta * 100) 3,
                                   par_sigma = py_round (sigma * 100) 3 \<rparr>,
                    expected_path = zip (map time_label times) expected_rates,
                    rate_volatility = zip (map time_label times) rate_std,
                    zcb_prices = map (zcb_entry r0 a b sigma) zcb_times,
                    scenarios =
                      [(''base'', \<lparr> scenario_rate = py_round (r0 * 100) 2, scenario_prob = 1 / 2 \<rparr>),
                       (''up_1std'', \<lparr> scenario_rate = py_round ((r0 + sigma) * 100) 2,
                                       scenario_prob = 1 / 4 \<rparr>),
                       (''down_1std'', \<lparr> scenario_rate = py_round ((r0 - sigma) * 100) 2,
                                         scenario_prob = 1 / 4 \<rparr>)],
                    half_life_years = py_round half_life 2,
                    long_term_rate = py_round (theta * 100) 3 \<rparr>)"

subsection \<open>black\_scholes\_analysis\<close>

text \<open>
  The option is set up and priced by the third-party library, which is no part of the
  repository. It enters as a parameter that answers a query in one of three ways: an
  exception while the dates, curves, process and option are set up, before the guarded
  block (\<open>Setup_raises\<close>); an exception of one of the six calls of the guarded block,
  \<^verbatim>\<open>NPV, delta, gamma, theta, vega, rho\<close> (\<open>Pricing_raises\<close>); or the six values.
\<close>

record ql_query =
  q_today :: int
  q_maturity :: int
  q_spot :: real
  q_strike :: real
  q_rate :: real
  q_volatility :: real
  q_call :: bool

record ql_values =
  ql_npv :: real
  ql_delta :: real
  ql_gamma :: real
  ql_theta :: real
  ql_vega :: real
  ql_rho :: real

datatype ql_outcome = Setup_raises | Pricing_raises | Priced ql_values

type_synonym pricing_library = "ql_query \<Rightarrow> ql_outcome"

definition lower_char :: "char \<Rightarrow> char" where
  "lower_char c =
     (let n = (of_char c :: nat) in if 65 \<le> n \<and> n \<le> 90 then char_of (n + 32) else c)"

definition lower :: "string \<Rightarrow> string" where
  \<comment> \<open>\<^verbatim>\<open>str.lower\<close> on ASCII text\<close>
  "lower s = map lower_char s"

record bs_inputs =
  in_spot :: real
  in_strike :: real
  in_rate :: real
  in_volatility :: real
  in_maturity_days :: int
  in_type :: string

record greeks =
  delta :: real
  gamma :: real
  theta :: real
  vega :: real
  rho :: real

record bs_analysis =
  moneyness :: string
  intrinsic_value :: real
  time_value :: real
  breakeven :: real

record bs_report =
  bs_model :: string
  inputs :: bs_inputs
  price :: real
  greeks :: greeks
  analysis :: bs_analysis

text \<open>What \<^verbatim>\<open>black_scholes_analysis\<close> hands to the library.\<close>

definition bs_query :: "analyzer \<Rightarrow> real \<Rightarrow> real \<Rightarrow> real \<Rightarrow> real \<Rightarrow> int \<Rightarrow> string \<Rightarrow> ql_query" where
  "bs_query self spot strike rate volatility maturity_days option_type =
     \<lparr> q_today = today self, q_maturity = today self + maturity_days, q_spot = spot,
       q_strike = strike, q_rate = rate, q_volatility = volatility,
       q_call = (lower option_type = ''call'') \<rparr>"

text \<open>
  The guarded block: the six values as the source scales them, all zero when a call
  raised.
\<close>

definition guarded_values :: "ql_outcome \<Rightarrow> ql_values" where
  "guarded_values out =
     (case out of
        Priced v \<Rightarrow> \<lparr> ql_npv = ql_npv v, ql_delta = ql_delta v, ql_gamma = ql_gamma v,
                      ql_theta = ql_theta v / 365, ql_vega = ql_vega v / 100,
                      ql_rho = ql_rho v / 100 \<rparr>
      | _ \<Rightarrow> \<lparr> ql_npv = 0, ql_delta = 0, ql_gamma = 0, ql_theta = 0, ql_vega = 0, ql_rho = 0 \<rparr>)"

definition black_scholes_analysis ::
  "pricing_library \<Rightarrow> analyzer \<Rightarrow> real \<Rightarrow> real \<Rightarrow> real \<Rightarrow> real \<Rightarrow> int \<Rightarrow> string \<Rightarrow>
     py_error + bs_report" where
  "black_scholes_analysis ql self spot strike rate volatility maturity_days option_type =
     (let is_call = (lower option_type = ''call'');
          out = ql (bs_query self spot strike rate volatility maturity_days option_type)
      in if out = Setup_raises then Inl LibraryError
         else
           let priced = guarded_values out;
               p = ql_npv priced;
               be = (if is_call then strike + p else strike - p);
               mny = (if is_call
                      then (if strike < spot then ''ITM''
                            else if spot < strike then ''OTM'' else ''ATM'')
                      else (if spot < strike then ''ITM''
                            else if strike < spot then ''OTM'' else ''ATM''));
               intrinsic = (if is_call then max 0 (spot - strike) else max 0 (strike - spot));
               tv = p - intrinsic
           in Inr \<lparr> bs_model = ''Black-Scholes'',
                    inputs = \<lparr> in_spot = spot, in_strike = strike,
                                in_rate = py_round (rate * 100) 2,
                                in_volatility = py_round (volatility * 100) 2,
                                in_maturity_days = maturity_days, in_type = option_type \<rparr>,
                    price = py_round p 4,
                    greeks = \<lparr> delta = py_round (ql_delta priced) 4,
                                gamma = py_round (ql_gamma priced) 6,
                                theta = py_round (ql_theta priced) 4,
                                vega = py_round (ql_vega priced) 4,
                                rho = py_round (ql_rho priced) 4 \<rparr>,
                    analysis = \<lparr> moneyness = mny, intrinsic_value = py_round intrinsic 4,
                                  time_value = py_round tv 4, breakeven = py_round be 2 \<rparr> \<rparr>)"

subsection \<open>yield\_curve\_analysis\<close>

text \<open>
  A dictionary argument is the list of its items in insertion order; the keys of a
  dictionary are distinct.
\<close>

definition tenor_map :: "(string \<times> real) list" where
  "tenor_map =
     [(''1M'', 1 / 12), (''3M'', 1 / 4), (''6M'', 1 / 2), (''1Y'', 1), (''2Y'', 2),
      (''3Y'', 3), (''5Y'', 5), (''7Y'', 7), (''10Y'', 10), (''30Y'', 30)]"

text \<open>The loop over \<^verbatim>\<open>rates.items()\<close>: the points whose label the table knows.\<close>

fun curve_points :: "(string \<times> real) list \<Rightarrow> (real \<times> real) list" where
  "curve_points [] = []"
| "curve_points ((tenor, rate) # rest) =
     (case map_of tenor_map tenor of
        Some t \<Rightarrow> (t, rate) # curve_points rest
      | None \<Rightarrow> curve_points rest)"

text \<open>
  The fixed sentences that come with a classification are Korean text; each is named
  here by a tag.
\<close>

datatype curve_note = Expansion_expected | Normal_environment | Slowdown_concern | Recession_signal

definition classify_slope :: "real \<Rightarrow> string \<times> curve_note" where
  "classify_slope slope =
     (if 5 / 10 < slope then (''STEEP'', Expansion_expected)
      else if 0 < slope then (''NORMAL'', Normal_environment)
      else if - (5 / 10) < slope then (''FLAT'', Slowdown_concern)
      else (''INVERTED'', Recession_signal))"

text \<open>
  \<^verbatim>\<open>forward_rates\<close>: one entry per pair of neighbours. The key of the source prints the
  two tenors (\<^verbatim>\<open>f"{t1}Y-{t2}Y"\<close>); here the key is the pair itself. The division raises
  when two neighbours have the same tenor.
\<close>

fun forward_rates_of :: "(real \<times> real) list \<Rightarrow> py_error + ((real \<times> real) \<times> real) list" where
  "forward_rates_of ((t1, r1) # (t2, r2) # rest) =
     (if t2 - t1 = 0 then Inl ZeroDivisionError
      else case forward_rates_of ((t2, r2) # rest) of
             Inl e \<Rightarrow> Inl e
           | Inr fs \<Rightarrow> Inr (((t1, t2), py_round ((r2 * t2 - r1 * t1) / (t2 - t1) * 100) 3) # fs))"
| "forward_rates_of _ = Inr []"

record curve_fields =
  curve_shape :: string
  slope_bps :: real
  curve_interpretation :: curve_note
  short_rate :: real
  long_rate :: real
  forward_rates :: "((real \<times> real) \<times> real) list"
  data_points :: nat

datatype curve_report = Error_report string | Curve_report curve_fields

text \<open>
  \<^verbatim>\<open>yield_curve_analysis\<close>. After the early return the list has two points or more, so
  the second test of the length always holds; its other branch would leave
  \<^verbatim>\<open>short_rate\<close> unbound at the return.
\<close>

definition yield_curve_analysis :: "(string \<times> real) list \<Rightarrow> py_error + curve_report" where
  "yield_curve_analysis rates =
     (let pts = curve_points rates
      in if length pts < 2 then Inr (Error_report ''Insufficient data'')
         else
           let sorted_data = sort pts;
               tenors = map fst sorted_data;
               yields = map snd sorted_data
           in if 2 \<le> length tenors
              then
                let short = hd yields;
                    long = last yields;
                    slope = long - short;
                    cls = classify_slope slope
                in case forward_rates_of sorted_data of
                     Inl e \<Rightarrow> Inl e
                   | Inr fs \<Rightarrow>
                       Inr (Curve_report
                         \<lparr> curve_shape = fst cls, slope_bps = py_round (slope * 10000) 1,
                           curve_interpretation = snd cls,
                           short_rate = py_round (short * 100) 3,
                           long_rate = py_round (long * 100) 3,
                           forward_rates = fs, data_points = length tenors \<rparr>)
              else Inl NameError)"

subsection \<open>bond\_analysis\<close>

definition py_int :: "real \<Rightarrow> int" where
  \<comment> \<open>\<^verbatim>\<open>int(x)\<close> on a float truncates towards zero\<close>
  "py_int x = (if 0 \<le> x then \<lfloor>x\<rfloor> else \<lceil>x\<rceil>)"

text \<open>
  \<^verbatim>\<open>int(years_to_maturity * frequency)\<close>: an integer too large for a float cannot be
  multiplied with one, and an infinite product cannot be converted. The product that is
  truncated is the float product of the two floats: \<^verbatim>\<open>int(0.29 * 100)\<close> is 28.
\<close>

definition n_periods :: "real \<Rightarrow> int \<Rightarrow> py_error + int" where
  "n_periods years_to_maturity frequency =
     (if float_overflow (of_int frequency)
         \<or> float_overflow (fl years_to_maturity * fl (of_int frequency)) then Inl OverflowError
      else Inr (py_int (fl (fl years_to_maturity * fl (of_int frequency)))))"

definition coupon :: "real \<Rightarrow> real \<Rightarrow> int \<Rightarrow> real" where
  \<comment> \<open>the caller has checked \<open>frequency \<noteq> 0\<close>\<close>
  "coupon face_value coupon_rate frequency = face_value * coupon_rate / of_int frequency"

definition ytm_period :: "real \<Rightarrow> int \<Rightarrow> real" where
  "ytm_period ytm frequency = ytm / of_int frequency"

definition discounted :: "real \<Rightarrow> real \<Rightarrow> int \<Rightarrow> py_error + real" where
  \<comment> \<open>\<^verbatim>\<open>num / (1 + ytm_period)**k\<close>\<close>
  "discounted num y k = and_then (py_pow (1 + y) k) (py_div num)"

definition pv_coupons :: "real \<Rightarrow> real \<Rightarrow> int \<Rightarrow> py_error + real" where
  \<comment> \<open>\<^verbatim>\<open>sum([coupon / (1 + ytm_period)**t for t in range(1, n_periods + 1)])\<close>\<close>
  "pv_coupons c y n = py_sum (\<lambda>t. discounted c y t) [1..n]"

definition pv_face :: "real \<Rightarrow> real \<Rightarrow> int \<Rightarrow> py_error + real" where
  "pv_face face_value y n = discounted face_value y n"

definition weighted_cf :: "real \<Rightarrow> real \<Rightarrow> real \<Rightarrow> int \<Rightarrow> py_error + real" where
  "weighted_cf face_value c y n =
     and_then (py_sum (\<lambda>t. discounted (of_int t * c) y t) [1..n]) (\<lambda>s.
     and_then (discounted (of_int n * face_value) y n) (\<lambda>f. Inr (s + f)))"

definition convexity_sum :: "real \<Rightarrow> real \<Rightarrow> real \<Rightarrow> int \<Rightarrow> py_error + real" where
  "convexity_sum face_value c y n =
     and_then (py_sum (\<lambda>t. discounted (of_int t * (of_int t + 1) * c) y (t + 2)) [1..n]) (\<lambda>s.
     and_then (discounted (of_int n * (of_int n + 1) * face_value) y (n + 2)) (\<lambda>f. Inr (s + f)))"

definition rate_changes :: "(string \<times> real) list" where
  \<comment> \<open>\<^verbatim>\<open>[-0.01, -0.005, 0.005, 0.01]\<close> with the key \<^verbatim>\<open>f"{int(dr*10000)}bp"\<close>\<close>
  "rate_changes =
     [(''-100bp'', - (1 / 100)), (''-50bp'', - (5 / 1000)), (''50bp'', 5 / 1000), (''100bp'', 1 / 100)]"

record price_change =
  new_price :: real
  change_pct :: real

record bond_inputs =
  in_face_value :: real
  in_coupon_rate :: real
  in_ytm :: real
  in_years_to_maturity :: real

record bond_report =
  bond_inputs :: bond_inputs
  reported_price :: real
  premium_discount :: string
  current_yield :: real
  macaulay_duration :: real
  modified_duration :: real
  convexity :: real
  rate_sensitivity :: "(string \<times> price_change) list"

text \<open>
  \<^verbatim>\<open>bond_analysis\<close>, statement by statement in the source's order. It can raise at the
  conversion to \<^verbatim>\<open>int\<close>, at the division by \<open>frequency\<close>, at each power of
  \<open>1 + ytm_period\<close> and the division by it, at the divisions by \<open>price\<close> and by
  \<open>1 + ytm_period\<close>, and at the product of \<open>price\<close> with the integer \<open>frequency**2\<close>.
  The comparison of the price with the face value is the comparison of the exact sums:
  where these are equal or nearly so, the floats of the source may compare otherwise.
\<close>

definition bond_analysis :: "real \<Rightarrow> real \<Rightarrow> real \<Rightarrow> real \<Rightarrow> int \<Rightarrow> py_error + bond_report" where
  "bond_analysis face_value coupon_rate ytm years_to_maturity frequency =
     and_then (n_periods years_to_maturity frequency) (\<lambda>n.
     if frequency = 0 then Inl ZeroDivisionError
     else
       let c = coupon face_value coupon_rate frequency;
           y = ytm_period ytm frequency
       in and_then (pv_coupons c y n) (\<lambda>pvc.
          and_then (pv_face face_value y n) (\<lambda>pvf.
          let p = pvc + pvf
          in and_then (weighted_cf face_value c y n) (\<lambda>wcf.
             if p = 0 then Inl ZeroDivisionError
             else
               let mac = wcf / p / of_int frequency
               in if 1 + y = 0 then Inl ZeroDivisionError
                  else
                    let md = mac / (1 + y)
                    in and_then (convexity_sum face_value c y n) (\<lambda>cs.
                       if float_overflow (of_int (frequency\<^sup>2)) then Inl OverflowError
                       else
                         let cx = cs / (p * of_int (frequency\<^sup>2));
                             shock = (\<lambda>kd.
                               let dr = snd kd;
                                   approx_change = - md * dr + (1 / 2) * cx * dr\<^sup>2
                               in (fst kd,
                                   \<lparr> new_price = py_round (p * (1 + approx_change)) 2,
                                     change_pct = py_round (approx_change * 100) 3 \<rparr>))
                         in Inr \<lparr> bond_inputs =
                                    \<lparr> in_face_value = face_value,
                                      in_coupon_rate = py_round (coupon_rate * 100) 2,
                                      in_ytm = py_round (ytm * 100) 2,
                                      in_years_to_maturity = years_to_maturity \<rparr>,
                                  reported_price = py_round p 2,
                                  premium_discount =
                                    (if face_value < p then ''Premium''
                                     else if p < face_value then ''Discount'' else ''Par''),
                                  current_yield =
                                    py_round ((c * of_int frequency / p) * 100) 3,
                                  macaulay_duration = py_round mac 3,
                                  modified_duration = py_round md 3,
                                  convexity = py_round cx 3,
                                  rate_sensitivity = map shock rate_changes \<rparr>)))))"

subsection \<open>volatility\_surface\_analysis\<close>

definition dict_get :: "('k \<times> 'v) list \<Rightarrow> 'k \<Rightarrow> 'v \<Rightarrow> 'v" where
  \<comment> \<open>\<^verbatim>\<open>d.get(k, default)\<close>\<close>
  "dict_get d k dflt = (case map_of d k of Some v \<Rightarrow> v | None \<Rightarrow> dflt)"

definition default_vol_data :: "(string \<times> real) list" where
  "default_vol_data =
     (let atm_vol = 18 / 100
      in [(''10D_Put'', atm_vol * (13 / 10)), (''25D_Put'', atm_vol * (115 / 100)),
          (''ATM'', atm_vol), (''25D_Call'', atm_vol * (95 / 100)),
          (''10D_Call'', atm_vol * (90 / 100))])"

datatype skew_note = Strong_downside_premium | Normal_hedge_demand | Balanced_structure | Upside_expectation

datatype term_note = Short_term_uncertainty | Normal_term_structure

definition skew_interpretation_of :: "real \<Rightarrow> skew_note" where
  "skew_interpretation_of skew =
     (if 3 / 100 < skew then Strong_downside_premium
      else if 1 / 100 < skew then Normal_hedge_demand
      else if - (1 / 100) < skew then Balanced_structure
      else Upside_expectation)"

definition term_structure_of :: "real \<Rightarrow> (string \<times> real) list" where
  "term_structure_of atm_vol =
     [(''1W'', py_round (atm_vol * (11 / 10)) 4), (''1M'', py_round atm_vol 4),
      (''3M'', py_round (atm_vol * (95 / 100)) 4), (''6M'', py_round (atm_vol * (92 / 100)) 4),
      (''1Y'', py_round (atm_vol * (90 / 100)) 4)]"

record skew_metrics =
  skew :: real
  risk_reversal :: real
  butterfly :: real

record vol_report =
  vol_spot :: real
  atm_volatility :: real
  volatility_smile :: "(string \<times> real) list"
  skew_metrics :: skew_metrics
  skew_interpretation :: skew_note
  term_structure :: "(string \<times> real) list"
  term_shape :: string
  term_interpretation :: term_note

text \<open>
  \<^verbatim>\<open>volatility_surface_analysis\<close>. The two entries it compares are keys the literal
  above always holds, so the subscripts cannot fail; \<open>dict_get\<close> reads them with a
  default that is never used.
\<close>

definition volatility_surface_analysis :: "real \<Rightarrow> real \<Rightarrow> (string \<times> real) list option \<Rightarrow> vol_report" where
  "volatility_surface_analysis spot rate vol_data_arg =
     (let vol_data = (case vol_data_arg of None \<Rightarrow> default_vol_data | Some d \<Rightarrow> d);
          put_vol = dict_get vol_data ''25D_Put'' (dict_get vol_data ''ATM'' (18 / 100));
          call_vol = dict_get vol_data ''25D_Call'' (dict_get vol_data ''ATM'' (18 / 100));
          atm_vol = dict_get vol_data ''ATM'' (18 / 100);
          sk = put_vol - call_vol;
          rr = call_vol - put_vol;
          bf = (put_vol + call_vol) / 2 - atm_vol;
          ts = term_structure_of atm_vol;
          shape = (if dict_get ts ''1M'' 0 < dict_get ts ''1W'' 0
                   then (''BACKWARDATION'', Short_term_uncertainty)
                   else (''CONTANGO'', Normal_term_structure))
      in \<lparr> vol_spot = spot,
           atm_volatility = py_round (atm_vol * 100) 2,
           volatility_smile = map (\<lambda>kv. (fst kv, py_round (snd kv * 100) 2)) vol_data,
           skew_metrics = \<lparr> skew = py_round (sk * 100) 2, risk_reversal = py_round (rr * 100) 2,
                             butterfly = py_round (bf * 100) 2 \<rparr>,
           skew_interpretation = skew_interpretation_of sk,
           term_structure = map (\<lambda>kv. (fst kv, py_round (snd kv * 100) 2)) ts,
           term_shape = fst shape,
           term_interpretation = snd shape \<rparr>)"

subsection \<open>comprehensive\_analysis\<close>

definition comprehensive_rates :: "(string \<times> real) list \<Rightarrow> (string \<times> real) list" where
  "comprehensive_rates market_data =
     [(''3M'', dict_get market_data ''us_3m'' (45 / 1000)),
      (''2Y'', dict_get market_data ''us_2y'' (359 / 10000)),
      (''10Y'', dict_get market_data ''us_10y'' (427 / 10000)),
      (''30Y'', dict_get market_data ''us_30y'' (45 / 1000))]"

definition comprehensive_vol_data :: "real \<Rightarrow> (string \<times> real) list" where
  "comprehensive_vol_data vix =
     [(''10D_Put'', vix / 100 * (13 / 10)), (''25D_Put'', vix / 100 * (115 / 100)),
      (''ATM'', vix / 100), (''25D_Call'', vix / 100 * (95 / 100)),
      (''10D_Call'', vix / 100 * (90 / 100))]"

record comprehensive_report =
  vasicek :: vasicek_report
  yield_curve :: curve_report
  volatility :: vol_report
  bond_10y :: bond_report
  option_atm :: bs_report

definition atm_query :: "analyzer \<Rightarrow> (string \<times> real) list \<Rightarrow> ql_query" where
  \<comment> \<open>what the fifth analysis, the option at the money, hands to the library\<close>
  "atm_query self market_data =
     bs_query self (dict_get market_data ''kospi'' 2650) (dict_get market_data ''kospi'' 2650)
       (dict_get market_data ''us_10y'' (427 / 10000)) (dict_get market_data ''vix'' 18 / 100)
       30 ''call''"

text \<open>\<^verbatim>\<open>comprehensive_analysis\<close>: the five analyses in the source's order; a raise ends it.\<close>

definition comprehensive_analysis ::
  "pricing_library \<Rightarrow> analyzer \<Rightarrow> (string \<times> real) list \<Rightarrow> py_error + comprehensive_report" where
  "comprehensive_analysis ql self market_data =
     (let r0 = dict_get market_data ''us_10y'' (427 / 10000)
      in case vasicek_analysis r0 (25 / 100) (35 / 1000) (1 / 100) of
           Inl e \<Rightarrow> Inl e
         | Inr vas \<Rightarrow>
             (case yield_curve_analysis (comprehensive_rates market_data) of
                Inl e \<Rightarrow> Inl e
              | Inr yc \<Rightarrow>
                  let vix = dict_get market_data ''vix'' 18;
                      spot = dict_get market_data ''kospi'' 2650;
                      vol = volatility_surface_analysis spot r0 (Some (comprehensive_vol_data vix))
                  in (case bond_analysis 10000 (4 / 100) r0 10 2 of
                        Inl e \<Rightarrow> Inl e
                      | Inr bond \<Rightarrow>
                          (case black_scholes_analysis ql self spot spot r0 (vix / 100) 30
                                  ''call'' of
                             Inl e \<Rightarrow> Inl e
                           | Inr opt \<Rightarrow>
                               Inr \<lparr> vasicek = vas, yield_curve = yc, volatility = vol,
                                     bond_10y = bond, option_atm = opt \<rparr>))))"

section \<open>risk\_layer.py: RiskManager\<close>

record thresholds =
  low :: real
  medium :: real
  high :: real
  extreme :: real

record risk_manager =
  ql_analyzer :: analyzer
  move_thresholds :: thresholds
  vix_thresholds :: thresholds

text \<open>
  \<^verbatim>\<open>RiskManager.__init__\<close>: an analyzer of its own, made at the clock's date, and the
  two threshold tables.
\<close>

definition RiskManager :: "int \<Rightarrow> risk_manager" where
  "RiskManager clock_date =
     \<lparr> ql_analyzer = QuantLibAnalyzer clock_date,
       move_thresholds = \<lparr> low = 80, medium = 100, high = 120, extreme = 150 \<rparr>,
       vix_thresholds = \<lparr> low = 15, medium = 20, high = 25, extreme = 35 \<rparr> \<rparr>"

record risk_metrics =
  risk_level :: string
  risk_score :: int
  move_contribution :: int
  vix_contribution :: int
  vol_multiplier :: real
  move_value :: real
  vix_value :: real

definition bucket_score :: "thresholds \<Rightarrow> real \<Rightarrow> int" where
  \<comment> \<open>the if/elif chain written twice in the source, once per index\<close>
  "bucket_score th x =
     (if x < low th then 10
      else if x < medium th then 25
      else if x < high th then 35
      else if x < extreme th then 45
      else 50)"

definition level_of_score :: "int \<Rightarrow> string" where
  "level_of_score s =
     (if s < 40 then ''LOW''
      else if s < 60 then ''MEDIUM''
      else if s < 80 then ''HIGH''
      else ''EXTREME'')"

definition calculate_risk_metrics :: "risk_manager \<Rightarrow> real \<Rightarrow> real \<Rightarrow> risk_metrics" where
  "calculate_risk_metrics self move vix =
     (let move_score = bucket_score (move_thresholds self) move;
          vix_score = bucket_score (vix_thresholds self) vix;
          score = move_score + vix_score;
          level = level_of_score score;
          mult = (vix / 20) * (move / 100)
      in \<lparr> risk_level = level, risk_score = score,
           move_contribution = move_score, vix_contribution = vix_score,
           vol_multiplier = py_round mult 3, move_value = move, vix_value = vix \<rparr>)"

record position_sizing =
  base_allocation :: real
  risk_adjustment :: real
  adjusted_allocation :: real
  max_position_value :: real
  stop_loss_pct :: real
  stop_loss_value :: real

definition calculate_position_sizing :: "int \<Rightarrow> real \<Rightarrow> position_sizing" where
  "calculate_position_sizing score portfolio_value =
     (let base = 1 / 10;
          risk_adj = (if score < 40 then 12 / 10
                      else if score < 60 then 1
                      else if score < 80 then 7 / 10
                      else 4 / 10);
          adjusted = base * risk_adj;
          max_position = portfolio_value * adjusted;
          stop_loss = (if score < 40 then 5 / 100
                       else if score < 60 then 3 / 100
                       else 2 / 100)
      in \<lparr> base_allocation = base, risk_adjustment = risk_adj,
           adjusted_allocation = py_round adjusted 3,
           max_position_value = py_round max_position 0,
           stop_loss_pct = stop_loss,
           stop_loss_value = py_round (max_position * stop_loss) 0 \<rparr>)"

record var_report =
  confidence_level :: real
  daily_volatility :: real
  var_1d :: real
  var_5d :: real
  var_20d :: real
  cvar_1d :: real

text \<open>
  The locals of \<^verbatim>\<open>_calculate_var\<close>, before the report rounds them. The z-score table
  is a dictionary read with \<^verbatim>\<open>.get(confidence, 1.645)\<close>.
\<close>

definition z_score :: "real \<Rightarrow> real" where
  "z_score confidence =
     (case map_of [(90 / 100, 128 / 100), (95 / 100, 1645 / 1000), (99 / 100, 233 / 100)]
             confidence of
        None \<Rightarrow> 1645 / 1000
      | Some z \<Rightarrow> z)"

definition daily_vol :: "real \<Rightarrow> real" where
  "daily_vol vix = vix / 100 / sqrt 252"

definition raw_var_1d :: "real \<Rightarrow> real \<Rightarrow> real \<Rightarrow> real" where
  "raw_var_1d portfolio_value vix confidence =
     portfolio_value * daily_vol vix * z_score confidence"

definition raw_var_5d :: "real \<Rightarrow> real \<Rightarrow> real \<Rightarrow> real" where
  "raw_var_5d portfolio_value vix confidence =
     raw_var_1d portfolio_value vix confidence * sqrt 5"

definition raw_var_20d :: "real \<Rightarrow> real \<Rightarrow> real \<Rightarrow> real" where
  "raw_var_20d portfolio_value vix confidence =
     raw_var_1d portfolio_value vix confidence * sqrt 20"

text \<open>
  \<^verbatim>\<open>_calculate_var\<close>. The report's \<^verbatim>\<open>interpretation\<close> sentence, a formatted string
  of \<open>confidence\<close> and the unrounded one-day figure, is left out of the record.
\<close>

definition calculate_var :: "real \<Rightarrow> real \<Rightarrow> real \<Rightarrow> var_report" where
  "calculate_var portfolio_value vix confidence =
     (let v1 = raw_var_1d portfolio_value vix confidence;
          v5 = raw_var_5d portfolio_value vix confidence;
          v20 = raw_var_20d portfolio_value vix confidence;
          es_multiplier = 125 / 100;
          cvar = v1 * es_multiplier
      in \<lparr> confidence_level = confidence,
           daily_volatility = py_round (daily_vol vix * 100) 3,
           var_1d = py_round v1 0,
           var_5d = py_round v5 0,
           var_20d = py_round v20 0,
           cvar_1d = py_round cvar 0 \<rparr>)"

record risk_report =
  timestamp :: string
  risk_metrics :: risk_metrics
  position_sizing :: position_sizing
  var_analysis :: var_report
  quantlib :: comprehensive_report

text \<open>
  \<^verbatim>\<open>analyze\<close>. \<open>now\<close> is what \<^verbatim>\<open>datetime.now().isoformat()\<close> returns when the report is
  built: the reading of the system clock, the one input of the method that is not an
  argument. \<^verbatim>\<open>market_data=None\<close> stands for the empty dictionary.
\<close>

definition analyze_ql_data :: "real \<Rightarrow> (string \<times> real) list \<Rightarrow> (string \<times> real) list" where
  \<comment> \<open>the dictionary \<^verbatim>\<open>ql_data\<close> that \<^verbatim>\<open>analyze\<close> hands on\<close>
  "analyze_ql_data vix_val market_data =
     [(''us_10y'', dict_get market_data ''us_10y'' (427 / 10000)),
      (''us_2y'', dict_get market_data ''us_2y'' (359 / 10000)),
      (''us_30y'', dict_get market_data ''us_30y'' (45 / 1000)),
      (''vix'', vix_val),
      (''kospi'', dict_get market_data ''kospi'' 2650)]"

definition analyze ::
  "pricing_library \<Rightarrow> string \<Rightarrow> risk_manager \<Rightarrow> real \<Rightarrow> real \<Rightarrow> real \<Rightarrow>
     (string \<times> real) list option \<Rightarrow> py_error + risk_report" where
  "analyze ql now self move_val vix_val portfolio_value market_data_arg =
     (let market_data = (case market_data_arg of None \<Rightarrow> [] | Some d \<Rightarrow> d);
          metrics = calculate_risk_metrics self move_val vix_val;
          sizing = calculate_position_sizing (risk_score metrics) portfolio_value;
          ql_data = analyze_ql_data vix_val market_data
      in case comprehensive_analysis ql (ql_analyzer self) ql_data of
           Inl e \<Rightarrow> Inl e
         | Inr qa \<Rightarrow>
             Inr \<lparr> timestamp = now, risk_metrics = metrics, position_sizing = sizing,
                   var_analysis = calculate_var portfolio_value vix_val (95 / 100),
                   quantlib = qa \<rparr>)"

section \<open>Two pricing libraries to evaluate with\<close>


definition library_expired :: pricing_library where
  "library_expired q =
     Priced \<lparr> ql_npv = 0, ql_delta = 0, ql_gamma = 0, ql_theta = 0, ql_vega = 0, ql_rho = 0 \<rparr>"

section \<open>Rounding\<close>

lemma round_half_even_lower: "x - 1 / 2 \<le> of_int (round_half_even x)"
  unfolding round_half_even_def Let_def by (auto; linarith)

lemma round_half_even_upper: "of_int (round_half_even x) \<le> x + 1 / 2"
  unfolding round_half_even_def Let_def by (auto; linarith)

lemma round_half_even_of_int [simp]: "round_half_even (of_int k) = k"
  by (simp add: round_half_even_def)

lemma round_half_even_gap:
  assumes "x + 1 < y"
  shows "round_half_even x < round_half_even y"
proof -
  have "of_int (round_half_even x) \<le> x + 1 / 2" by (rule round_half_even_upper)
  also have "\<dots> < y - 1 / 2" using assms by simp
  also have "\<dots> \<le> of_int (round_half_even y)" by (rule round_half_even_lower)
  finally show ?thesis by simp
qed

text \<open>The nearest float, computed from the binary exponent.\<close>

lemma fl_eq:
  assumes "2 powi e \<le> \<bar>x\<bar>" "\<bar>x\<bar> < 2 powi (e + 1)" "- 1022 \<le> e"
  shows "fl x = of_int (round_half_even (x / 2 powi (e - 52))) * 2 powi (e - 52)"
proof -
  have pos: "0 < \<bar>x\<bar>"
    using assms(1) by (smt (verit) zero_less_power_int)
  have "\<lfloor>log 2 \<bar>x\<bar>\<rfloor> = e"
    using assms pos
    by (subst floor_log_eq_powr_iff) (simp_all add: powr_real_of_int' flip: of_int_add)
  with pos assms(3) show ?thesis
    by (simp add: fl_def Let_def max_def)
qed

lemma fl_2: "fl 2 = 2"
  by (subst fl_eq[where e = 1])
    (simp_all add: round_half_even_def power_int_def Let_def power_one_over)

lemma fl_10: "fl 10 = 10"
  by (subst fl_eq[where e = 3])
    (simp_all add: round_half_even_def power_int_def Let_def power_one_over)

lemma fl_20: "fl 20 = 20"
  by (subst fl_eq[where e = 4])
    (simp_all add: round_half_even_def power_int_def Let_def power_one_over)

lemma fl_100: "fl 100 = 100"
  by (subst fl_eq[where e = 6])
    (simp_all add: round_half_even_def power_int_def Let_def power_one_over)

lemma fl_29_hundredths: "fl (29 / 100) = 5224175567749775 / 2 ^ 54"
  by (subst fl_eq[where e = "- 2"])
    (simp_all add: round_half_even_def power_int_def Let_def power_one_over)

lemma fl_29_product: "fl (5224175567749775 / 2 ^ 54 * 100) = 8162774324609023 / 2 ^ 48"
  by (subst fl_eq[where e = 4])
    (simp_all add: round_half_even_def power_int_def Let_def power_one_over)

lemma n_periods_10y: "n_periods 10 2 = Inr 20"
  by (simp add: n_periods_def fl_10 fl_2 fl_20 float_overflow_def py_int_def)

text \<open>The periods of 0.29 years at 100 payments a year: 28, as in the source.\<close>

lemma n_periods_truncates_float: "n_periods (29 / 100) 100 = Inr 28"
proof -
  have f: "fl (29 / 100) * fl (of_int 100) = 5224175567749775 / 2 ^ 54 * 100"
    by (simp only: of_int_numeral fl_100 fl_29_hundredths)
  show ?thesis
    unfolding n_periods_def f fl_29_product
    by (simp add: float_overflow_def py_int_def)
qed

section \<open>Properties of the risk scorer\<close>

lemma bucket_score_mono:
  assumes "low th \<le> medium th" "medium th \<le> high th" "high th \<le> extreme th" "x \<le> y"
  shows "bucket_score th x \<le> bucket_score th y"
  using assms by (simp add: bucket_score_def)

lemma bucket_score_range: "10 \<le> bucket_score th x \<and> bucket_score th x \<le> 50"
  by (simp add: bucket_score_def)

lemma risk_score_eq:
  "risk_score (calculate_risk_metrics self a b) =
     bucket_score (move_thresholds self) a + bucket_score (vix_thresholds self) b"
  by (simp add: calculate_risk_metrics_def Let_def)

text \<open>
  Claim C5. For every MOVE value \<open>m\<close> and VIX value \<open>v\<close> (in particular the non-negative
  ones), \<^verbatim>\<open>_calculate_risk_metrics\<close> of a manager built by \<^verbatim>\<open>__init__\<close> gives the MOVE
  contribution 10, 25, 35, 45 or 50 by the thresholds 80, 100, 120, 150, the VIX
  contribution likewise by 15, 20, 25, 35, the score as their sum, and the level LOW
  below 40, MEDIUM below 60, HIGH below 80, else EXTREME. At MOVE 99 and VIX 18 the
  score is 25 + 25 = 50 and the level MEDIUM.
\<close>

theorem risk_metrics_buckets:
  "move_contribution (calculate_risk_metrics (RiskManager d) m v) =
     (if m < 80 then 10 else if m < 100 then 25 else if m < 120 then 35
      else if m < 150 then 45 else 50)
   \<and> vix_contribution (calculate_risk_metrics (RiskManager d) m v) =
     (if v < 15 then 10 else if v < 20 then 25 else if v < 25 then 35
      else if v < 35 then 45 else 50)
   \<and> risk_score (calculate_risk_metrics (RiskManager d) m v) =
       move_contribution (calculate_risk_metrics (RiskManager d) m v)
         + vix_contribution (calculate_risk_metrics (RiskManager d) m v)
   \<and> risk_level (calculate_risk_metrics (RiskManager d) m v) =
     (if risk_score (calculate_risk_metrics (RiskManager d) m v) < 40 then ''LOW''
      else if risk_score (calculate_risk_metrics (RiskManager d) m v) < 60 then ''MEDIUM''
      else if risk_score (calculate_risk_metrics (RiskManager d) m v) < 80 then ''HIGH''
      else ''EXTREME'')
   \<and> move_contribution (calculate_risk_metrics (RiskManager d) 99 18) = 25
   \<and> vix_contribution (calculate_risk_metrics (RiskManager d) 99 18) = 25
   \<and> risk_score (calculate_risk_metrics (RiskManager d) 99 18) = 50
   \<and> risk_level (calculate_risk_metrics (RiskManager d) 99 18) = ''MEDIUM''"
  by (simp add: calculate_risk_metrics_def RiskManager_def bucket_score_def
      level_of_score_def Let_def)

text \<open>
  Claim C6. The composite score never decreases when MOVE grows with VIX fixed, nor when
  VIX grows with MOVE fixed, and it always lies between 20 and 100.
\<close>

theorem risk_score_monotone_bounded:
  "(m1 \<le> m2 \<longrightarrow>
      risk_score (calculate_risk_metrics (RiskManager d) m1 v)
        \<le> risk_score (calculate_risk_metrics (RiskManager d) m2 v))
   \<and> (v1 \<le> v2 \<longrightarrow>
      risk_score (calculate_risk_metrics (RiskManager d) m v1)
        \<le> risk_score (calculate_risk_metrics (RiskManager d) m v2))
   \<and> 20 \<le> risk_score (calculate_risk_metrics (RiskManager d) m v)
   \<and> risk_score (calculate_risk_metrics (RiskManager d) m v) \<le> 100"
proof -
  let ?mt = "move_thresholds (RiskManager d)" and ?vt = "vix_thresholds (RiskManager d)"
  have mt: "low ?mt \<le> medium ?mt" "medium ?mt \<le> high ?mt" "high ?mt \<le> extreme ?mt"
    and vt: "low ?vt \<le> medium ?vt" "medium ?vt \<le> high ?vt" "high ?vt \<le> extreme ?vt"
    by (simp_all add: RiskManager_def)
  show ?thesis
    unfolding risk_score_eq
    using bucket_score_mono[OF mt, of m1 m2] bucket_score_mono[OF vt, of v1 v2]
      bucket_score_range[of ?mt m] bucket_score_range[of ?vt v]
    by auto
qed

theorem risk_score_monotone_bounded_witness:
  "(99::real) \<le> 120 \<and>
   risk_score (calculate_risk_metrics (RiskManager 0) 99 18)
     \<le> risk_score (calculate_risk_metrics (RiskManager 0) 120 18)
   \<and> (18::real) \<le> 40 \<and>
   risk_score (calculate_risk_metrics (RiskManager 0) 99 18)
     \<le> risk_score (calculate_risk_metrics (RiskManager 0) 99 40)
   \<and> risk_score (calculate_risk_metrics (RiskManager 0) 99 18) = 50
   \<and> risk_score (calculate_risk_metrics (RiskManager 0) 120 18) = 70
   \<and> risk_score (calculate_risk_metrics (RiskManager 0) 99 40) = 75"
  using risk_score_monotone_bounded[of 99 120 0 18 18 40 99]
  by (simp add: calculate_risk_metrics_def RiskManager_def bucket_score_def Let_def)

section \<open>Properties of the volatility surface\<close>

lemma round_scaled_gap:
  assumes "10 \<le> b"
  shows "round_half_even b < round_half_even (b * (11 / 10))"
proof (cases "b = 10")
  case True
  have "round_half_even (of_int 10) < round_half_even (of_int 11)"
    unfolding round_half_even_of_int by simp
  then show ?thesis using True by simp
next
  case False
  with assms have "b + 1 < b * (11 / 10)" by simp
  then show ?thesis by (rule round_half_even_gap)
qed

lemma term_structure_backwardation:
  assumes "1 / 1000 \<le> atm"
  shows "dict_get (term_structure_of atm) ''1M'' 0 < dict_get (term_structure_of atm) ''1W'' 0"
proof -
  have "10 \<le> atm * 10 ^ 4" using assms by simp
  from round_scaled_gap[OF this]
  have "round_half_even (atm * 10 ^ 4) < round_half_even (atm * (11 / 10) * 10 ^ 4)"
    by (simp add: mult.commute mult.left_commute)
  then have "py_round atm 4 < py_round (atm * (11 / 10)) 4"
    unfolding py_round_def by (simp add: divide_strict_right_mono)
  then show ?thesis
    by (simp add: term_structure_of_def dict_get_def)
qed

lemma term_shape_eq:
  "term_shape (volatility_surface_analysis spot rate arg) =
     (let atm = dict_get (case arg of None \<Rightarrow> default_vol_data | Some d \<Rightarrow> d) ''ATM'' (18 / 100)
      in if dict_get (term_structure_of atm) ''1M'' 0 < dict_get (term_structure_of atm) ''1W'' 0
         then ''BACKWARDATION'' else ''CONTANGO'')"
  by (simp add: volatility_surface_analysis_def Let_def)

lemma comprehensive_volatility:
  assumes "comprehensive_analysis ql self md = Inr res"
  shows "volatility res =
     volatility_surface_analysis (dict_get md ''kospi'' 2650) (dict_get md ''us_10y'' (427 / 10000))
       (Some (comprehensive_vol_data (dict_get md ''vix'' 18)))"
  using assms
  by (auto simp: comprehensive_analysis_def Let_def split: sum.splits)

section \<open>Properties of the yield curve analysis\<close>

lemma tenor_known_iff:
  "map_of tenor_map k \<noteq> None \<longleftrightarrow>
     k \<in> {''1M'', ''3M'', ''6M'', ''1Y'', ''2Y'', ''3Y'', ''5Y'', ''7Y'', ''10Y'', ''30Y''}"
  unfolding map_of_eq_None_iff by (simp add: tenor_map_def)

lemma curve_points_filter:
  "curve_points (filter (\<lambda>kv. map_of tenor_map (fst kv) \<noteq> None) rates) = curve_points rates"
  by (induction rates rule: curve_points.induct) (auto split: option.splits)

lemma length_curve_points:
  "length (curve_points rates) = length (filter (\<lambda>kv. map_of tenor_map (fst kv) \<noteq> None) rates)"
  by (induction rates rule: curve_points.induct) (auto split: option.splits)

text \<open>
  Claim C9. \<^verbatim>\<open>yield_curve_analysis\<close> gives the same result with every entry removed
  whose label is not one of 1M, 3M, 6M, 1Y, 2Y, 3Y, 5Y, 7Y, 10Y, 30Y; and when fewer
  than two entries have such a label it returns the report tagged as an error,
  "Insufficient data": no raise, no classification.
\<close>

theorem yield_curve_insufficient_data:
  "yield_curve_analysis rates =
     yield_curve_analysis
       (filter (\<lambda>kv. fst kv \<in> {''1M'', ''3M'', ''6M'', ''1Y'', ''2Y'', ''3Y'', ''5Y'', ''7Y'', ''10Y'', ''30Y''})
          rates)
   \<and> (length (filter (\<lambda>kv. fst kv \<in> {''1M'', ''3M'', ''6M'', ''1Y'', ''2Y'', ''3Y'', ''5Y'', ''7Y'', ''10Y'', ''30Y''})
          rates) < 2
        \<longrightarrow> yield_curve_analysis rates = Inr (Error_report ''Insufficient data''))"
proof -
  let ?known = "\<lambda>kv :: string \<times> real.
    fst kv \<in> {''1M'', ''3M'', ''6M'', ''1Y'', ''2Y'', ''3Y'', ''5Y'', ''7Y'', ''10Y'', ''30Y''}"
  have "curve_points (filter ?known rates) = curve_points rates"
    using curve_points_filter[of rates] unfolding tenor_known_iff .
  moreover have "length (curve_points rates) = length (filter ?known rates)"
    using length_curve_points[of rates] unfolding tenor_known_iff .
  ultimately show ?thesis
    by (simp add: yield_curve_analysis_def Let_def)
qed

theorem yield_curve_insufficient_data_witness:
  "length (filter (\<lambda>kv. fst kv \<in> {''1M'', ''3M'', ''6M'', ''1Y'', ''2Y'', ''3Y'', ''5Y'', ''7Y'', ''10Y'', ''30Y''})
          [(''10Y'', 427 / 10000 :: real), (''4Y'', 4 / 100), (''overnight'', 5 / 100)]) < 2
   \<and> yield_curve_analysis [(''10Y'', 427 / 10000), (''4Y'', 4 / 100), (''overnight'', 5 / 100)]
       = Inr (Error_report ''Insufficient data'')
   \<and> yield_curve_analysis [(''10Y'', 427 / 10000), (''4Y'', 4 / 100), (''overnight'', 5 / 100)]
       = yield_curve_analysis [(''10Y'', 427 / 10000)]"
  using yield_curve_insufficient_data[of "[(''10Y'', 427 / 10000), (''4Y'', 4 / 100), (''overnight'', 5 / 100)]"]
  by (simp add: yield_curve_analysis_def tenor_map_def Let_def)

text \<open>
  Claim C1, at two inputs. For the curve 3M at 3 percent and 10Y at 4 percent the slope
  is one percentage point, above half a percentage point, and the analysis answers
  NORMAL where the claim says STEEP; for the mirrored curve the slope is minus one
  percentage point and the analysis answers FLAT where the claim says INVERTED. The
  source compares the slope, a difference of decimal fractions, with 0.5 and -0.5.
\<close>

theorem yield_curve_threshold_unit:
  "(\<exists>f. yield_curve_analysis [(''3M'', 3 / 100), (''10Y'', 4 / 100)] = Inr (Curve_report f)
       \<and> curve_shape f = ''NORMAL'' \<and> slope_bps f = 100
       \<and> (5 / 1000 :: real) < 4 / 100 - 3 / 100)
   \<and> (\<exists>f. yield_curve_analysis [(''3M'', 4 / 100), (''10Y'', 3 / 100)] = Inr (Curve_report f)
       \<and> curve_shape f = ''FLAT'' \<and> slope_bps f = - 100
       \<and> (3 / 100 - 4 / 100 :: real) \<le> - (5 / 1000))"
  by (simp add: yield_curve_analysis_def tenor_map_def classify_slope_def Let_def
      py_round_def round_half_even_def)

section \<open>When the analyses return\<close>

lemma py_sum_ok:
  assumes "\<And>t. t \<in> set ts \<Longrightarrow> f t = Inr (g t)"
  shows "py_sum f ts = Inr (sum_list (map g ts))"
  using assms by (induction ts) simp_all

lemma float_range_moderate:
  fixes x :: real
  assumes "1 \<le> x" "x \<le> 2 ^ 1000"
  shows "\<not> float_overflow x" "\<not> float_zero x"
proof -
  have "(2 :: real) ^ 1000 < 2 ^ 1024 - 2 ^ 970" by simp
  with assms show "\<not> float_overflow x" by (simp add: float_overflow_def)
  have "1 / 2 ^ 1075 < (1 :: real)" by simp
  with assms show "\<not> float_zero x" by (simp add: float_zero_def)
qed

lemma py_pow_ok:
  assumes "1 \<le> x" "x \<le> 2" "0 \<le> k" "k \<le> 1000"
  shows "py_pow x k = Inr (x powi k)" "1 \<le> x powi k"
proof -
  have e: "x powi k = x ^ nat k" using assms by (simp add: power_int_def)
  have lo: "1 \<le> x ^ nat k" using assms by (simp add: one_le_power)
  have "x ^ nat k \<le> 2 ^ nat k" using assms by (intro power_mono) simp_all
  also have "\<dots> \<le> (2 :: real) ^ 1000" using assms by (intro power_increasing) simp_all
  finally have hi: "x ^ nat k \<le> 2 ^ 1000" .
  show "1 \<le> x powi k" unfolding e by (rule lo)
  show "py_pow x k = Inr (x powi k)"
    using float_range_moderate[OF lo hi] assms unfolding py_pow_def e by simp
qed

lemma discounted_ok:
  assumes "0 \<le> y" "y \<le> 1" "0 \<le> k" "k \<le> 1000"
  shows "discounted num y k = Inr (num / (1 + y) powi k)"
proof -
  have "1 \<le> 1 + y" "1 + y \<le> 2" using assms by simp_all
  from py_pow_ok[OF this assms(3,4)] assms(1) show ?thesis
    by (simp add: discounted_def and_then_def py_div_def)
qed

lemma bond_analysis_returns:
  assumes n: "n_periods years frequency = Inr n" "0 \<le> n" "n \<le> 998"
    and f: "0 < frequency" "\<not> float_overflow (of_int (frequency\<^sup>2))"
    and y: "0 \<le> ytm_period ytm frequency" "ytm_period ytm frequency \<le> 1"
    and v: "0 < face_value" "0 \<le> coupon face_value coupon_rate frequency"
  shows "\<exists>rep. bond_analysis face_value coupon_rate ytm years frequency = Inr rep"
proof -
  let ?y = "ytm_period ytm frequency" and ?c = "coupon face_value coupon_rate frequency"
  have d: "discounted num ?y k = Inr (num / (1 + ?y) powi k)" if "0 \<le> k" "k \<le> 1000" for num k
    using that by (intro discounted_ok y)
  have pow_pos: "0 < (1 + ?y) powi k" for k
    using y by (intro zero_less_power_int) simp
  have pvc: "pv_coupons ?c ?y n = Inr (sum_list (map (\<lambda>t. ?c / (1 + ?y) powi t) [1..n]))"
    unfolding pv_coupons_def by (rule py_sum_ok) (use n in \<open>simp add: d\<close>)
  have pvf: "pv_face face_value ?y n = Inr (face_value / (1 + ?y) powi n)"
    unfolding pv_face_def using n by (simp add: d)
  have "py_sum (\<lambda>t. discounted (of_int t * ?c) ?y t) [1..n]
      = Inr (sum_list (map (\<lambda>t. of_int t * ?c / (1 + ?y) powi t) [1..n]))"
    by (rule py_sum_ok) (use n in \<open>simp add: d\<close>)
  then obtain w where w: "weighted_cf face_value ?c ?y n = Inr w"
    unfolding weighted_cf_def using n by (simp add: d and_then_def)
  have "py_sum (\<lambda>t. discounted (of_int t * (of_int t + 1) * ?c) ?y (t + 2)) [1..n]
      = Inr (sum_list (map (\<lambda>t. of_int t * (of_int t + 1) * ?c / (1 + ?y) powi (t + 2)) [1..n]))"
    by (rule py_sum_ok) (use n in \<open>simp add: d\<close>)
  then obtain cs where cs: "convexity_sum face_value ?c ?y n = Inr cs"
    unfolding convexity_sum_def using n by (simp add: d and_then_def)
  have "0 \<le> sum_list (map (\<lambda>t. ?c / (1 + ?y) powi t) [1..n])"
    by (rule sum_list_nonneg) (use v pow_pos in \<open>auto simp: less_imp_le\<close>)
  moreover have "0 < face_value / (1 + ?y) powi n"
    using pow_pos[of n] v by (simp del: power_int_eq_0_iff)
  ultimately have p:
    "sum_list (map (\<lambda>t. ?c / (1 + ?y) powi t) [1..n]) + face_value / (1 + ?y) powi n \<noteq> 0"
    by linarith
  have y1: "1 + ?y \<noteq> 0" using y by simp
  have f0: "frequency \<noteq> 0" using f by simp
  show ?thesis
    using p y1 f0 f(2)
    by (simp add: bond_analysis_def n(1) and_then_def Let_def pvc pvf w cs)
qed

lemma bond_10y_returns:
  assumes "0 \<le> r0" "r0 \<le> 2"
  shows "\<exists>rep. bond_analysis 10000 (4 / 100) r0 10 2 = Inr rep"
proof (rule bond_analysis_returns)
  show "n_periods 10 2 = Inr 20" by (rule n_periods_10y)
qed (use assms in \<open>simp_all add: float_overflow_def ytm_period_def coupon_def\<close>)

lemma vasicek_comprehensive_returns:
  "\<exists>vas. vasicek_analysis r0 (25 / 100) (35 / 1000) (1 / 100) = Inr vas"
  by (simp add: vasicek_analysis_def float_overflow_def float_zero_def Let_def power2_eq_square)

lemma comprehensive_curve_returns:
  "\<exists>f. yield_curve_analysis (comprehensive_rates md) = Inr (Curve_report f)"
  by (simp add: yield_curve_analysis_def comprehensive_rates_def tenor_map_def Let_def)

lemma black_scholes_returns:
  assumes "ql (bs_query self spot strike rate vol d ty) \<noteq> Setup_raises"
  shows "\<exists>rep. black_scholes_analysis ql self spot strike rate vol d ty = Inr rep"
  using assms by (simp add: black_scholes_analysis_def Let_def)

lemma comprehensive_returns:
  assumes "0 \<le> dict_get md ''us_10y'' (427 / 10000)" "dict_get md ''us_10y'' (427 / 10000) \<le> 2"
    and "ql (atm_query self md) \<noteq> Setup_raises"
  shows "\<exists>res. comprehensive_analysis ql self md = Inr res"
proof -
  let ?r0 = "dict_get md ''us_10y'' (427 / 10000)"
  obtain vas where v: "vasicek_analysis ?r0 (25 / 100) (35 / 1000) (1 / 100) = Inr vas"
    using vasicek_comprehensive_returns by blast
  obtain f where c: "yield_curve_analysis (comprehensive_rates md) = Inr (Curve_report f)"
    using comprehensive_curve_returns by blast
  obtain bond where b: "bond_analysis 10000 (4 / 100) ?r0 10 2 = Inr bond"
    using bond_10y_returns[OF assms(1,2)] by blast
  obtain opt where o: "black_scholes_analysis ql self (dict_get md ''kospi'' 2650)
      (dict_get md ''kospi'' 2650) ?r0 (dict_get md ''vix'' 18 / 100) 30 ''call'' = Inr opt"
    using black_scholes_returns assms(3) unfolding atm_query_def by blast
  show ?thesis
    unfolding comprehensive_analysis_def Let_def v c b o by simp
qed

lemma analyze_quantlib:
  "map_sum id quantlib (analyze ql now self m v p md) =
     comprehensive_analysis ql (ql_analyzer self)
       (analyze_ql_data v (case md of None \<Rightarrow> [] | Some d \<Rightarrow> d))"
  by (simp add: analyze_def Let_def split: sum.splits)



lemma py_round_0 [simp]: "py_round 0 n = 0"
  by (simp add: py_round_def round_half_even_def)


text \<open>
  Claim C10. With the term structure at 1.10 (1W) and 1.00 (1M) of the ATM volatility,
  every ATM volatility of at least 0.001 gives the term shape BACKWARDATION, never
  CONTANGO; so does every call through \<^verbatim>\<open>comprehensive_analysis\<close> with a VIX of at least
  0.1, whatever report it returns.
\<close>

theorem term_shape_backwardation:
  "(1 / 1000 \<le> dict_get (case arg of None \<Rightarrow> default_vol_data | Some d \<Rightarrow> d) ''ATM'' (18 / 100) \<longrightarrow>
      term_shape (volatility_surface_analysis spot rate arg) = ''BACKWARDATION'')
   \<and> (1 / 10 \<le> vix \<longrightarrow>
      term_shape (volatility_surface_analysis spot rate (Some (comprehensive_vol_data vix)))
        = ''BACKWARDATION'')
   \<and> (1 / 10 \<le> dict_get md ''vix'' 18 \<and> comprehensive_analysis ql self md = Inr res \<longrightarrow>
      term_shape (volatility res) = ''BACKWARDATION'')"
proof -
  have a: "term_shape (volatility_surface_analysis s r arg') = ''BACKWARDATION''"
    if "1 / 1000 \<le> dict_get (case arg' of None \<Rightarrow> default_vol_data | Some d \<Rightarrow> d) ''ATM'' (18 / 100)"
    for s r arg'
    unfolding term_shape_eq Let_def using term_structure_backwardation[OF that] by simp
  have b: "term_shape (volatility_surface_analysis s r (Some (comprehensive_vol_data x))) = ''BACKWARDATION''"
    if "1 / 10 \<le> x" for s r x
  proof (rule a)
    show "1 / 1000 \<le> dict_get (case Some (comprehensive_vol_data x) of None \<Rightarrow> default_vol_data | Some d \<Rightarrow> d) ''ATM'' (18 / 100)"
      using that by (simp add: comprehensive_vol_data_def dict_get_def)
  qed
  have c: "term_shape (volatility res) = ''BACKWARDATION''"
    if "1 / 10 \<le> dict_get md ''vix'' 18" "comprehensive_analysis ql self md = Inr res"
    unfolding comprehensive_volatility[OF that(2)] by (rule b[OF that(1)])
  show ?thesis
    using a[of arg spot rate] b[of vix spot rate] c by blast
qed

theorem term_shape_backwardation_witness:
  "(1 / 1000 :: real) \<le> dict_get default_vol_data ''ATM'' (18 / 100)
   \<and> term_shape (volatility_surface_analysis 2650 (427 / 10000) None) = ''BACKWARDATION''
   \<and> (1 / 10 :: real) \<le> 18
   \<and> term_shape (volatility_surface_analysis 2650 (427 / 10000) (Some (comprehensive_vol_data 18)))
       = ''BACKWARDATION''
   \<and> (1 / 10 :: real) \<le> dict_get [(''vix'', 18)] ''vix'' 18
   \<and> (\<exists>res. comprehensive_analysis library_expired (QuantLibAnalyzer 0) [(''vix'', 18)] = Inr res
         \<and> term_shape (volatility res) = ''BACKWARDATION'')"
proof -
  have "0 \<le> dict_get [(''vix'', 18 :: real)] ''us_10y'' (427 / 10000)"
    "dict_get [(''vix'', 18 :: real)] ''us_10y'' (427 / 10000) \<le> 2"
    "library_expired (atm_query (QuantLibAnalyzer 0) [(''vix'', 18)]) \<noteq> Setup_raises"
    by (simp_all add: dict_get_def library_expired_def)
  from comprehensive_returns[where ql = library_expired and self = "QuantLibAnalyzer 0"
      and md = "[(''vix'', 18)]", OF this]
  obtain res where
    res: "comprehensive_analysis library_expired (QuantLibAnalyzer 0) [(''vix'', 18)] = Inr res"
    by blast
  have a: "(1 / 1000 :: real) \<le> dict_get default_vol_data ''ATM'' (18 / 100)"
    by (simp add: default_vol_data_def dict_get_def)
  have b: "(1 / 10 :: real) \<le> dict_get [(''vix'', 18)] ''vix'' 18"
    by (simp add: dict_get_def)
  show ?thesis
    using term_shape_backwardation[of None 2650 "427 / 10000" 18 "[(''vix'', 18)]"
        library_expired "QuantLibAnalyzer 0" res] res a b
    by auto
qed

section \<open>The variance of the rate model\<close>

text \<open>The variance under the square root is never negative at a positive tenor.\<close>

lemma var_rate_nonneg:
  assumes "a \<noteq> 0" "0 < t"
  shows "0 \<le> var_rate sigma a t"
proof (cases "0 < a")
  case True
  then have "exp (- 2 * a * t) \<le> 1" using assms by (simp add: mult_nonneg_nonneg less_imp_le)
  then show ?thesis
    unfolding var_rate_def using True by (intro mult_nonneg_nonneg) simp_all
next
  case False
  with assms have neg: "a < 0" by simp
  then have "0 \<le> - 2 * a * t" using assms by (simp add: mult_nonpos_nonneg less_imp_le)
  then have "1 \<le> exp (- 2 * a * t)" by simp
  moreover have "sigma\<^sup>2 / (2 * a) \<le> 0"
    using neg by (simp add: divide_nonneg_neg)
  ultimately show ?thesis
    unfolding var_rate_def by (intro mult_nonpos_nonpos) simp_all
qed

section \<open>Raises at the edge of the float range\<close>

text \<open>
  Where the rate model and the bond analytics leave the range of the floats they raise:
  the rate model at a reversion speed whose square is the float zero or beyond the
  largest float, the bond analytics at a periodic yield of \<open>-1\<close> and at a discount factor
  beyond the largest float.
\<close>

lemma vasicek_raises_out_of_range:
  "vasicek_analysis r0 (1 / 10 ^ 200) th (1 / 100) = Inl ZeroDivisionError"
  "vasicek_analysis r0 (10 ^ 200) th (1 / 100) = Inl OverflowError"
  by (simp_all add: vasicek_analysis_def float_overflow_def float_zero_def Let_def
      power2_eq_square power_divide)

lemma bond_raises_at_zero_base:
  "bond_analysis 100 (5 / 100) (- 2) 10 2 = Inl ZeroDivisionError"
proof -
  have "discounted c (ytm_period (- 2) 2) 1 = Inl ZeroDivisionError" for c
    by (simp add: discounted_def ytm_period_def py_pow_def py_div_def and_then_def
        float_overflow_def float_zero_def)
  then have "pv_coupons c (ytm_period (- 2) 2) 20 = Inl ZeroDivisionError" for c
    by (simp add: pv_coupons_def upto.simps)
  then show ?thesis
    by (simp add: bond_analysis_def n_periods_10y and_then_def Let_def)
qed

lemma pv_coupons_second_raises:
  assumes "discounted c y 1 = Inr v" "discounted c y 2 = Inl e"
  shows "pv_coupons c y 20 = Inl e"
  by (simp add: pv_coupons_def upto.simps assms)

lemma bond_raises_out_of_range:
  "bond_analysis 100 (5 / 100) (10 ^ 200) 10 2 = Inl OverflowError"
proof -
  let ?y = "ytm_period (10 ^ 200) 2"
  have y: "1 + ?y = 5 * 10 ^ 199 + 1" by (simp add: ytm_period_def)
  have 1: "discounted c ?y 1 = Inr (c / (5 * 10 ^ 199 + 1))" for c
    unfolding discounted_def y
    by (simp add: py_pow_def py_div_def and_then_def float_overflow_def float_zero_def)
  have 2: "discounted c ?y 2 = Inl OverflowError" for c
    unfolding discounted_def y
    by (simp add: py_pow_def and_then_def float_overflow_def power2_eq_square)
  have "pv_coupons c ?y 20 = Inl OverflowError" for c
    using 1 2 by (rule pv_coupons_second_raises)
  then show ?thesis
    unfolding bond_analysis_def n_periods_10y and_then_def Let_def by simp
qed

section \<open>Repeated invocations\<close>






section \<open>The option at expiry\<close>




section \<open>Properties of the VaR calculator\<close>

lemma round_half_even_eqI:
  assumes "of_int k - 1 / 2 < x" "x < of_int k + 1 / 2"
  shows "round_half_even x = k"
proof -
  have "of_int (round_half_even x) < (of_int k :: real) + 1"
    using round_half_even_upper[of x] assms by linarith
  moreover have "(of_int k :: real) - 1 < of_int (round_half_even x)"
    using round_half_even_lower[of x] assms by linarith
  ultimately have "round_half_even x < k + 1" "k - 1 < round_half_even x"
    by linarith+
  then show ?thesis by simp
qed

lemma sqrt_252_bounds: "1587 / 100 < sqrt 252" "sqrt 252 < 1588 / 100"
  by (rule real_less_rsqrt, simp add: power2_eq_square) (rule real_less_lsqrt, simp_all add: power2_eq_square)

lemma sqrt_5_bounds: "2236 / 1000 < sqrt 5" "sqrt 5 < 2237 / 1000"
  by (rule real_less_rsqrt, simp add: power2_eq_square) (rule real_less_lsqrt, simp_all add: power2_eq_square)

lemma z_score_95: "z_score (95 / 100) = 1645 / 1000"
  by (simp add: z_score_def)

lemma raw_var_1d_example: "raw_var_1d 1000 18 (95 / 100) = (2961 / 10) / sqrt 252"
  unfolding raw_var_1d_def daily_vol_def z_score_95 by simp

lemma raw_var_1d_example_bounds:
  "186 / 10 < raw_var_1d 1000 18 (95 / 100)" "raw_var_1d 1000 18 (95 / 100) < 187 / 10"
proof -
  have pos: "0 < sqrt 252" by simp
  show "186 / 10 < raw_var_1d 1000 18 (95 / 100)"
    unfolding raw_var_1d_example using sqrt_252_bounds(2) pos
    by (simp add: field_simps)
  show "raw_var_1d 1000 18 (95 / 100) < 187 / 10"
    unfolding raw_var_1d_example using sqrt_252_bounds(1) pos
    by (simp add: field_simps)
qed

lemma raw_var_5d_example_bounds:
  "415 / 10 < raw_var_5d 1000 18 (95 / 100)" "raw_var_5d 1000 18 (95 / 100) < 425 / 10"
proof -
  let ?x = "raw_var_1d 1000 18 (95 / 100)"
  have "415 / 10 < (186 / 10) * (2236 / 1000 :: real)" by simp
  also have "\<dots> < ?x * sqrt 5"
    by (rule mult_strict_mono) (use raw_var_1d_example_bounds sqrt_5_bounds in simp_all)
  finally show "415 / 10 < raw_var_5d 1000 18 (95 / 100)"
    by (simp add: raw_var_5d_def)
  have "?x * sqrt 5 < (187 / 10) * (2237 / 1000)"
    by (rule mult_strict_mono) (use raw_var_1d_example_bounds sqrt_5_bounds in simp_all)
  also have "\<dots> < (425 / 10 :: real)" by simp
  finally show "raw_var_5d 1000 18 (95 / 100) < 425 / 10"
    by (simp add: raw_var_5d_def)
qed

lemma var_example_values:
  "var_1d (calculate_var 1000 18 (95 / 100)) = 19"
  "var_5d (calculate_var 1000 18 (95 / 100)) = 42"
proof -
  have "round_half_even (raw_var_1d 1000 18 (95 / 100)) = 19"
    by (rule round_half_even_eqI) (use raw_var_1d_example_bounds in simp_all)
  then show "var_1d (calculate_var 1000 18 (95 / 100)) = 19"
    by (simp add: calculate_var_def Let_def py_round_def)
  have "round_half_even (raw_var_5d 1000 18 (95 / 100)) = 42"
    by (rule round_half_even_eqI) (use raw_var_5d_example_bounds in simp_all)
  then show "var_5d (calculate_var 1000 18 (95 / 100)) = 42"
    by (simp add: calculate_var_def Let_def py_round_def)
qed

lemma py_round_0_close: "\<bar>py_round x 0 - x\<bar> \<le> 1 / 2"
proof -
  let ?r = "real_of_int (round_half_even x)"
  have "?r - x \<le> 1 / 2" "- (?r - x) \<le> 1 / 2"
    using round_half_even_lower[of x] round_half_even_upper[of x] by linarith+
  then have "\<bar>?r - x\<bar> \<le> 1 / 2" by (rule abs_leI)
  then show ?thesis by (simp add: py_round_def)
qed

lemma sqrt_20_bounds: "sqrt 20 < 4473 / 1000"
  by (rule real_less_lsqrt) (simp_all add: power2_eq_square)

lemma rounded_scaling:
  fixes x s :: real
  assumes "0 \<le> s"
  shows "\<bar>py_round (x * s) 0 - s * py_round x 0\<bar> \<le> (1 + s) / 2"
proof -
  have "\<bar>py_round (x * s) 0 - s * py_round x 0\<bar>
      \<le> \<bar>py_round (x * s) 0 - x * s\<bar> + \<bar>s * (x - py_round x 0)\<bar>"
    by (simp add: algebra_simps)
  also have "\<bar>s * (x - py_round x 0)\<bar> = s * \<bar>py_round x 0 - x\<bar>"
    using assms by (simp add: abs_mult abs_minus_commute)
  also have "\<bar>py_round (x * s) 0 - x * s\<bar> + s * \<bar>py_round x 0 - x\<bar> \<le> 1 / 2 + s * (1 / 2)"
    by (intro add_mono mult_left_mono py_round_0_close assms)
  finally show ?thesis by (simp add: field_simps)
qed

text \<open>
  Claim C8, as amended. The report of \<^verbatim>\<open>_calculate_var\<close> holds each figure rounded to a
  whole number, so the figures scale by the square root of time up to that rounding and
  not exactly: for \<open>portfolio_value * vix\<close> of at most \<open>10^14\<close> in absolute value, the
  reported \<open>var_1d\<close> is within 1 of \<open>portfolio_value * ((vix / 100) / sqrt 252) * z\<close>, the
  reported \<open>var_5d\<close> within 2 of \<open>sqrt 5\<close> times the reported \<open>var_1d\<close>, and the reported
  \<open>var_20d\<close> within 3 of \<open>sqrt 20\<close> times the reported \<open>var_1d\<close>. Over the reals the
  distances are at most \<open>1/2\<close>, \<open>(1 + sqrt 5) / 2\<close> and \<open>(1 + sqrt 20) / 2\<close> whatever the
  size; the bound on the size leaves room for the rounding of the floats.
\<close>

theorem var_scaling:
  assumes "\<bar>p * v\<bar> \<le> 10 ^ 14"
  shows "\<bar>var_1d (calculate_var p v c) - p * (v / 100 / sqrt 252) * z_score c\<bar> \<le> 1
    \<and> \<bar>var_5d (calculate_var p v c) - sqrt 5 * var_1d (calculate_var p v c)\<bar> \<le> 2
    \<and> \<bar>var_20d (calculate_var p v c) - sqrt 20 * var_1d (calculate_var p v c)\<bar> \<le> 3"
proof -
  let ?x = "raw_var_1d p v c"
  have f: "var_1d (calculate_var p v c) = py_round ?x 0"
    "var_5d (calculate_var p v c) = py_round (?x * sqrt 5) 0"
    "var_20d (calculate_var p v c) = py_round (?x * sqrt 20) 0"
    by (simp_all add: calculate_var_def raw_var_5d_def raw_var_20d_def Let_def)
  have x: "?x = p * (v / 100 / sqrt 252) * z_score c"
    by (simp add: raw_var_1d_def daily_vol_def)
  have "\<bar>py_round ?x 0 - ?x\<bar> \<le> 1" using py_round_0_close[of ?x] by simp
  moreover have "\<bar>py_round (?x * sqrt 5) 0 - sqrt 5 * py_round ?x 0\<bar> \<le> 2"
    using rounded_scaling[of "sqrt 5" ?x] sqrt_5_bounds(2) by simp
  moreover have "\<bar>py_round (?x * sqrt 20) 0 - sqrt 20 * py_round ?x 0\<bar> \<le> 3"
    using rounded_scaling[of "sqrt 20" ?x] sqrt_20_bounds by simp
  ultimately show ?thesis unfolding f x by simp
qed

theorem var_scaling_witness:
  "\<bar>1000 * 18\<bar> \<le> (10 ^ 14 :: real)
   \<and> var_1d (calculate_var 1000 18 (95 / 100)) = 19
   \<and> var_5d (calculate_var 1000 18 (95 / 100)) = 42
   \<and> \<bar>var_5d (calculate_var 1000 18 (95 / 100))
        - sqrt 5 * var_1d (calculate_var 1000 18 (95 / 100))\<bar> \<le> 2
   \<and> \<bar>var_20d (calculate_var 1000 18 (95 / 100))
        - sqrt 20 * var_1d (calculate_var 1000 18 (95 / 100))\<bar> \<le> 3"
proof -
  have "\<bar>1000 * 18\<bar> \<le> (10 ^ 14 :: real)" by simp
  from var_scaling[OF this, of "95 / 100"] this show ?thesis
    unfolding var_example_values by simp
qed

text \<open>
  As stated the claim fails on the reported figures: for a portfolio of 1000 at VIX 18
  the report holds 19 and 42, and 42 / 19 is not \<open>sqrt 5\<close>.
\<close>

theorem var_scaling_counterexample:
  "var_1d (calculate_var 1000 18 (95 / 100)) = 19
   \<and> var_5d (calculate_var 1000 18 (95 / 100)) = 42
   \<and> var_5d (calculate_var 1000 18 (95 / 100)) / var_1d (calculate_var 1000 18 (95 / 100)) \<noteq> sqrt 5"
proof -
  have "(42 / 19 :: real) \<noteq> sqrt 5"
  proof
    assume eq: "(42 / 19 :: real) = sqrt 5"
    have "(sqrt 5)\<^sup>2 = (5 :: real)" by simp
    then have "(42 / 19 :: real)\<^sup>2 = 5" unfolding eq[symmetric] .
    then show False by (simp add: power2_eq_square)
  qed
  then show ?thesis unfolding var_example_values by simp
qed

end
